theory Spec2Isabelle
  imports Complex_Main "HOL-Library.AList" "HOL-Library.Sublist"
begin

section \<open>Python values used by the notebooks\<close>

text \<open>
  The two notebooks (relaxation and decoherence, Deutsch-Josza) are scripts over Python
  dictionaries, lists and numpy arrays. A dictionary is an association list in insertion
  order (Python 3.6, the notebooks' kernel, iterates a dictionary in insertion order), a
  Python integer is an \<open>int\<close>, and a float is a \<open>real\<close>: rounding is not modelled.
  An exception is a value of \<open>error\<close>, returned on the left of a sum.
\<close>

datatype error =
    IndexError
  | KeyError string
  | NameError string
  | ZeroDivisionError
  | RuntimeError string
  | ValueError string

type_synonym counts = "(string \<times> int) list"

text \<open>\<open>d[k]\<close> on a dictionary raises KeyError when the key is missing.\<close>

definition getitem :: "(string \<times> 'v) list \<Rightarrow> string \<Rightarrow> error + 'v" where
  "getitem d k = (case map_of d k of None \<Rightarrow> Inl (KeyError k) | Some v \<Rightarrow> Inr v)"

text \<open>\<open>xs[i]\<close> on a list, for an index that is not negative, raises IndexError out of range.\<close>

definition index :: "'a list \<Rightarrow> nat \<Rightarrow> error + 'a" where
  "index xs i = (if i < length xs then Inr (xs ! i) else Inl IndexError)"

definition keys :: "(string \<times> 'v) list \<Rightarrow> string list" where
  "keys d = map fst d"

definition values_sum :: "counts \<Rightarrow> int" where
  "values_sum d = sum_list (map snd d)"

section \<open>Deutsch-Josza notebook: filtering the histogram\<close>

text \<open>
  \<open>np.sum\<close> of a list of Python integers first makes an array of the list. An empty list
  gives an array of floats, whose sum is the float \<open>0.0\<close>. A list whose entries all fit a
  signed 64-bit integer gives an \<open>int64\<close> array (numpy's default integer on 64-bit Linux
  and macOS), and the sum is computed in \<open>int64\<close>: it wraps around. A list with a larger entry gives an array of another type (unsigned,
  float or object); that case is not modelled and is \<open>None\<close>.
\<close>

datatype np_scalar = Int64 int | Float64 real

definition fits_int64 :: "int \<Rightarrow> bool" where
  "fits_int64 v = (- (2 ^ 63) \<le> v \<and> v < 2 ^ 63)"

text \<open>Arithmetic modulo \<open>2^64\<close>, read as a signed number.\<close>

definition wrap_int64 :: "int \<Rightarrow> int" where
  "wrap_int64 v = (v + 2 ^ 63) mod 2 ^ 64 - 2 ^ 63"

definition np_sum :: "int list \<Rightarrow> np_scalar option" where
  "np_sum vs =
     (if vs = [] then Some (Float64 0)
      else if list_all fits_int64 vs then Some (Int64 (wrap_int64 (sum_list vs)))
      else None)"

text \<open>
  The values of the filtered dictionary are the Python integers that were kept and the
  numpy scalar of the removed counts; each has a numeric value.
\<close>

datatype py_number = PyInt int | NumPy np_scalar

fun number_value :: "py_number \<Rightarrow> real" where
  "number_value (PyInt v) = real_of_int v"
| "number_value (NumPy (Int64 v)) = real_of_int v"
| "number_value (NumPy (Float64 x)) = x"

definition total_value :: "(string \<times> py_number) list \<Rightarrow> real" where
  "total_value d = sum_list (map (\<lambda>(k, v). number_value v) d)"

text \<open>
  \<^verbatim>\<open>
  filteredAnswer = {k: v for k,v in answer.items() if v >= threshold}
  removedCounts = np.sum([ v for k,v in answer.items() if v < threshold ])
  filteredAnswer['other_bitstring'] = removedCounts
  \<close>
  The assignment to a key overwrites the value of a key that is present and appends a new
  entry otherwise, which is \<open>AList.update\<close>.
\<close>

definition removedCounts :: "int \<Rightarrow> counts \<Rightarrow> np_scalar option" where
  "removedCounts threshold answer =
     np_sum (map snd (filter (\<lambda>(k, v). v < threshold) answer))"

definition filteredAnswer :: "int \<Rightarrow> counts \<Rightarrow> (string \<times> py_number) list option" where
  "filteredAnswer threshold answer =
     (case removedCounts threshold answer of
        None \<Rightarrow> None
      | Some removed \<Rightarrow>
         Some (AList.update ''other_bitstring'' (NumPy removed)
                 (map (\<lambda>(k, v). (k, PyInt v)) (filter (\<lambda>(k, v). v \<ge> threshold) answer))))"

section \<open>Relaxation and decoherence notebook: strings and circuit names\<close>

text \<open>\<open>str(ii)\<close> of an integer that is not negative: its decimal digits.\<close>

definition digit_char :: "nat \<Rightarrow> char" where
  "digit_char d = ''0123456789'' ! d"

fun str :: "nat \<Rightarrow> string" where
  "str n = (if n < 10 then [digit_char n] else str (n div 10) @ [digit_char (n mod 10)])"

declare str.simps [simp del]

text \<open>\<^verbatim>\<open>step_num='step_%s'%(str(ii))\<close>\<close>

definition step_num :: "nat \<Rightarrow> string" where
  "step_num ii = ''step_'' @ str ii"

text \<open>
  \<open>s.find(sub)\<close>: the lowest index at which \<open>sub\<close> occurs in \<open>s\<close>, and \<open>-1\<close> when it
  does not occur.
\<close>

fun find_from :: "string \<Rightarrow> string \<Rightarrow> nat \<Rightarrow> int" where
  "find_from sub [] i = (if sub = [] then int i else - 1)"
| "find_from sub (c # cs) i =
     (if prefix sub (c # cs) then int i else find_from sub cs (Suc i))"

definition str_find :: "string \<Rightarrow> string \<Rightarrow> int" where
  "str_find s sub = find_from sub s 0"

section \<open>Relaxation and decoherence notebook: the circuits\<close>

text \<open>
  A circuit is the list of the gates appended to it, each on a qubit of the register.
  \<^verbatim>\<open>
  def pad_QId(circuit,N,qr):
      for ii in range(N):
          circuit.barrier(qr)
          circuit.iden(qr)
      return circuit
  \<close>
\<close>

datatype gate = X nat | H nat | U1 real nat | Iden nat | Barrier nat | Measure nat nat

type_synonym circuit = "gate list"

fun pad_QId :: "circuit \<Rightarrow> nat \<Rightarrow> nat \<Rightarrow> circuit" where
  "pad_QId circuit 0 qr = circuit"
| "pad_QId circuit (Suc N) qr = pad_QId (circuit @ [Barrier qr, Iden qr]) N qr"

text \<open>The four experiments of the notebook, named after their fit results.\<close>

datatype expt = T1 | T2s | T2e | T2cpmg

fun qubit :: "expt \<Rightarrow> nat" where
  "qubit T1 = 3"
| "qubit T2s = 0"
| "qubit T2e = 3"
| "qubit T2cpmg = 3"

fun steps :: "expt \<Rightarrow> nat" where
  "steps T1 = 10"
| "steps T2s = 40"
| "steps T2e = 20"
| "steps T2cpmg = 17"

fun gates_per_step :: "expt \<Rightarrow> nat" where
  "gates_per_step T1 = 80"
| "gates_per_step T2s = 5"
| "gates_per_step T2e = 20"
| "gates_per_step T2cpmg = 6"

definition num_osc :: nat where
  "num_osc = 4"

definition num_echo :: nat where
  "num_echo = 7"

text \<open>
  The parameters of the measured qubit that the backend reports:
  \<open>params['gateTime']['value']\<close>, \<open>params['gateTime']['unit']\<close>, \<open>params['buffer']['value']\<close>.
\<close>

record qubit_params =
  gateTime_value :: real
  gateTime_unit :: string
  buffer_value :: real

definition tot_length :: "qubit_params \<Rightarrow> real" where
  "tot_length params = buffer_value params + gateTime_value params"

fun time_per_step :: "expt \<Rightarrow> qubit_params \<Rightarrow> real" where
  "time_per_step T1 params = real (gates_per_step T1) * tot_length params"
| "time_per_step T2s params = real (gates_per_step T2s) * tot_length params"
| "time_per_step T2e params = real (2 * gates_per_step T2e) * tot_length params"
| "time_per_step T2cpmg params =
     real ((num_echo + 1) * gates_per_step T2cpmg + num_echo) * tot_length params"

text \<open>
  The inner loop of the CPMG cell:
  \<^verbatim>\<open>
  for iii in range(num_echo):
      qc_dict[step_num]=pad_QId(qc_dict[step_num], gates_per_step*ii, qr[qubit])
      qc_dict[step_num].x(qr[qubit])
  \<close>
\<close>

fun echo_loop :: "circuit \<Rightarrow> nat \<Rightarrow> nat \<Rightarrow> nat \<Rightarrow> circuit" where
  "echo_loop circuit 0 N qr = circuit"
| "echo_loop circuit (Suc iii) N qr = echo_loop (pad_QId circuit N qr @ [X qr]) iii N qr"

text \<open>The body of the loop over the steps, for step \<open>ii\<close> of each experiment.\<close>

fun step_circuit :: "expt \<Rightarrow> nat \<Rightarrow> circuit" where
  "step_circuit T1 ii =
     pad_QId [X (qubit T1)] (gates_per_step T1 * ii) (qubit T1)
       @ [Barrier (qubit T1), Measure (qubit T1) (qubit T1)]"
| "step_circuit T2s ii =
     pad_QId [H (qubit T2s)] (gates_per_step T2s * ii) (qubit T2s)
       @ [U1 (2 * pi * real num_osc * real ii / real (steps T2s - 1)) (qubit T2s),
          H (qubit T2s), Barrier (qubit T2s), Measure (qubit T2s) (qubit T2s)]"
| "step_circuit T2e ii =
     pad_QId (pad_QId [H (qubit T2e)] (gates_per_step T2e * ii) (qubit T2e) @ [X (qubit T2e)])
         (gates_per_step T2e * ii) (qubit T2e)
       @ [H (qubit T2e), Barrier (qubit T2e), Measure (qubit T2e) (qubit T2e)]"
| "step_circuit T2cpmg ii =
     pad_QId (echo_loop [H (qubit T2cpmg)] num_echo (gates_per_step T2cpmg * ii) (qubit T2cpmg))
         (gates_per_step T2cpmg * ii) (qubit T2cpmg)
       @ [H (qubit T2cpmg), Barrier (qubit T2cpmg), Measure (qubit T2cpmg) (qubit T2cpmg)]"

text \<open>
  \<open>qc_dict\<close> after the loop \<open>for ii in range(steps)\<close>: each step stores its circuit under
  its name.
\<close>

definition qc_dict :: "expt \<Rightarrow> (string \<times> circuit) list" where
  "qc_dict e =
     fold (\<lambda>ii d. AList.update (step_num ii) (step_circuit e ii) d) [0..<steps e] []"

text \<open>
  The delay that a circuit realises: the notebook pads with identity gates, and each
  identity gate lasts one single-qubit gate time and is followed by one buffer time.
\<close>

definition delay :: "circuit \<Rightarrow> qubit_params \<Rightarrow> real" where
  "delay circuit params =
     real (length (filter (\<lambda>g. case g of Iden q \<Rightarrow> True | _ \<Rightarrow> False) circuit))
       * tot_length params"

section \<open>Relaxation and decoherence notebook: arranging the data of a run\<close>

text \<open>
  \<open>np.linspace(start, stop, num)\<close> with the default \<open>endpoint=True\<close>: \<open>num\<close> samples,
  the first at \<open>start\<close> and, when there are at least two, the last at \<open>stop\<close>, spaced by
  \<open>(stop - start) / (num - 1)\<close>.
\<close>

definition linspace :: "real \<Rightarrow> real \<Rightarrow> nat \<Rightarrow> real list" where
  "linspace start stop num =
     (if num = 0 then []
      else if num = 1 then [start]
      else map (\<lambda>i. start + real i * ((stop - start) / real (num - 1))) [0..<num - 1] @ [stop])"

text \<open>
  \<^verbatim>\<open>
  plot_factor=1
  if unit.find('ns')>-1:
      plot_factor=1000
      punit='$\mu$s'
  \<close>
  \<open>punit\<close> is a global of the notebook's kernel: it is \<open>None\<close> while no cell has assigned it.
\<close>

definition mu_s :: string where
  "mu_s = ''$'' @ [CHR 0x5C] @ ''mu$s''"

definition unit_conversion :: "string \<Rightarrow> string option \<Rightarrow> nat \<times> string option" where
  "unit_conversion unit punit =
     (if str_find unit ''ns'' > - 1 then (1000, Some mu_s) else (1, punit))"

text \<open>
  \<^verbatim>\<open>xvals=time_per_step*np.linspace(0,len(qc_dict.keys()),len(qc_dict.keys()))/plot_factor\<close>
\<close>

definition xvals_of :: "expt \<Rightarrow> qubit_params \<Rightarrow> nat \<Rightarrow> real list" where
  "xvals_of e params plot_factor =
     map (\<lambda>v. time_per_step e params * v / real plot_factor)
       (linspace 0 (real (length (keys (qc_dict e)))) (length (keys (qc_dict e))))"

text \<open>
  \<open>np.sqrt\<close> of a negative number is \<open>nan\<close>, \<open>nan\<close> stays \<open>nan\<close> in a division, and
  a division of floats by zero gives \<open>nan\<close> or an infinity; \<open>None\<close> stands for a float
  that is not a finite number.
\<close>

definition np_sqrt :: "real \<Rightarrow> real option" where
  "np_sqrt x = (if x < 0 then None else Some (sqrt x))"

definition np_div :: "real option \<Rightarrow> real option \<Rightarrow> real option" where
  "np_div a b =
     (case a of None \<Rightarrow> None
      | Some x \<Rightarrow> (case b of None \<Rightarrow> None
          | Some y \<Rightarrow> if y = 0 then None else Some (x / y)))"

text \<open>
  The body of the loop over the steps:
  \<^verbatim>\<open>
  data[ii]=float(result.get_counts(key)[keys_0_1[1]])/shots
  sigma_data[ii] = np.sqrt(data[ii]*(1-data[ii]))/np.sqrt(shots)
  \<close>
  \<open>result\<close> gives the counts of each circuit that was submitted.
\<close>

definition excited_counts :: "(string \<Rightarrow> counts) \<Rightarrow> string list \<Rightarrow> string \<Rightarrow> error + int" where
  "excited_counts result keys_0_1 key =
     (case index keys_0_1 1 of
        Inl err \<Rightarrow> Inl err
      | Inr k \<Rightarrow> getitem (result key) k)"

definition normalized :: "int \<Rightarrow> nat \<Rightarrow> error + real" where
  "normalized c shots =
     (if shots = 0 then Inl ZeroDivisionError else Inr (real_of_int c / real shots))"

definition sigma_of :: "real \<Rightarrow> nat \<Rightarrow> real option" where
  "sigma_of d shots = np_div (np_sqrt (d * (1 - d))) (np_sqrt (real shots))"

fun arrange_loop ::
  "(string \<Rightarrow> counts) \<Rightarrow> string list \<Rightarrow> nat \<Rightarrow> (nat \<times> string) list
     \<Rightarrow> real list \<times> real option list \<Rightarrow> error + (real list \<times> real option list)" where
  "arrange_loop result keys_0_1 shots [] (data, sigma_data) = Inr (data, sigma_data)"
| "arrange_loop result keys_0_1 shots ((ii, key) # rest) (data, sigma_data) =
     (case excited_counts result keys_0_1 key of
        Inl err \<Rightarrow> Inl err
      | Inr c \<Rightarrow>
         (case normalized c shots of
            Inl err \<Rightarrow> Inl err
          | Inr d \<Rightarrow>
             if ii < length data \<and> ii < length sigma_data
             then arrange_loop result keys_0_1 shots rest
                    (data[ii := d], sigma_data[ii := sigma_of d shots])
             else Inl IndexError))"

text \<open>
  \<^verbatim>\<open>
  keys_0_1=list(result.get_counts('step_0').keys())
  data=np.zeros(len(qc_dict.keys()))
  sigma_data = np.zeros(len(qc_dict.keys()))
  for ii,key in enumerate(qc_dict.keys()): ...
  \<close>
\<close>

definition arrange_data ::
  "expt \<Rightarrow> nat \<Rightarrow> (string \<Rightarrow> counts) \<Rightarrow> error + (real list \<times> real option list)" where
  "arrange_data e shots result =
     arrange_loop result (keys (result ''step_0'')) shots
       (enumerate 0 (keys (qc_dict e)))
       (replicate (length (keys (qc_dict e))) 0, replicate (length (keys (qc_dict e))) (Some 0))"

section \<open>Relaxation and decoherence notebook: the fit\<close>

text \<open>
  \<open>curve_fit\<close> is scipy's fitter and \<open>exp_fit_fun\<close>, \<open>osc_fit_fun\<close> are the SDK's model
  functions; the notebook only calls them. A call is described by its arguments, and the
  fitter is a parameter of the cell: it raises or returns the fitted parameters and their
  covariance matrix.
  \<^verbatim>\<open>
  fitT1, fcov = curve_fit(exp_fit_fun, xvals, data, bounds=([-1,2,0], [1., 500, 1]))
  fitT2s, fcov = curve_fit(osc_fit_fun, xvals, data, p0=[0.5, 100, 1/10, np.pi, 0],
                           bounds=([0.3,0,0,0,0], [0.5, 200, 1/2,2*np.pi,1]))
  fitT2e, fcov = curve_fit(exp_fit_fun, xvals, data, bounds=([-1,10,0], [1, 150, 1]))
  fitT2cpmg, fcov = curve_fit(exp_fit_fun, xvals, data, bounds=([-1,10,0], [1, 150, 1]))
  \<close>
\<close>

datatype fit_fun = exp_fit_fun | osc_fit_fun

record fit_call =
  f :: fit_fun
  xdata :: "real list"
  ydata :: "real list"
  p0 :: "real list option"
  bounds :: "(real list \<times> real list) option"

type_synonym fitter = "fit_call \<Rightarrow> error + (real list \<times> real list list)"

fun curve_fit_call :: "expt \<Rightarrow> real list \<Rightarrow> real list \<Rightarrow> fit_call" where
  "curve_fit_call T1 xvals data =
     \<lparr>f = exp_fit_fun, xdata = xvals, ydata = data, p0 = None,
      bounds = Some ([- 1, 2, 0], [1, 500, 1])\<rparr>"
| "curve_fit_call T2s xvals data =
     \<lparr>f = osc_fit_fun, xdata = xvals, ydata = data, p0 = Some [0.5, 100, 1 / 10, pi, 0],
      bounds = Some ([0.3, 0, 0, 0, 0], [0.5, 200, 1 / 2, 2 * pi, 1])\<rparr>"
| "curve_fit_call T2e xvals data =
     \<lparr>f = exp_fit_fun, xdata = xvals, ydata = data, p0 = None,
      bounds = Some ([- 1, 10, 0], [1, 150, 1])\<rparr>"
| "curve_fit_call T2cpmg xvals data =
     \<lparr>f = exp_fit_fun, xdata = xvals, ydata = data, p0 = None,
      bounds = Some ([- 1, 10, 0], [1, 150, 1])\<rparr>"

text \<open>\<open>np.diag\<close> of a matrix given by its rows.\<close>

fun diag_from :: "nat \<Rightarrow> real list list \<Rightarrow> real list" where
  "diag_from i [] = []"
| "diag_from i (row # rows) = (if i < length row then row ! i # diag_from (Suc i) rows else [])"

definition diag :: "real list list \<Rightarrow> real list" where
  "diag m = diag_from 0 m"

text \<open>
  The whole cell that arranges, fits and plots the data of a run. Nothing in it catches an
  exception. What the cell leaves in the kernel is the value of \<open>punit\<close> and, when no
  statement raised, the arrays and the fit; the drawing of the plot and the printed lines
  are output only and are not modelled.
  \<^verbatim>\<open>
  ferr = np.sqrt(np.diag(fcov))
  plot_coherence(xvals, data, sigma_data, fitT1, exp_fit_fun, punit, 'T$_1$ ', qubit)
  \<close>
\<close>

record arranged =
  xvals :: "real list"
  data :: "real list"
  sigma_data :: "real option list"
  fit :: "real list"
  fcov :: "real list list"
  ferr :: "real option list"
  plot_unit :: string

definition arrange_cell ::
  "expt \<Rightarrow> qubit_params \<Rightarrow> nat \<Rightarrow> (string \<Rightarrow> counts) \<Rightarrow> fitter \<Rightarrow> string option
     \<Rightarrow> string option \<times> (error + arranged)" where
  "arrange_cell e params shots result curve_fit punit_before =
     (let (plot_factor, punit) = unit_conversion (gateTime_unit params) punit_before;
          xs = xvals_of e params plot_factor
      in (punit,
          case arrange_data e shots result of
            Inl err \<Rightarrow> Inl err
          | Inr (ds, sigmas) \<Rightarrow>
             (case curve_fit (curve_fit_call e xs ds) of
                Inl err \<Rightarrow> Inl err
              | Inr (popt, pcov) \<Rightarrow>
                 (case punit of
                    None \<Rightarrow> Inl (NameError ''punit'')
                  | Some pu \<Rightarrow>
                     Inr \<lparr>xvals = xs, data = ds, sigma_data = sigmas, fit = popt,
                          fcov = pcov, ferr = map np_sqrt (diag pcov), plot_unit = pu\<rparr>))))"

section \<open>Well-formed histograms and a sample run\<close>

text \<open>
  The counts of a circuit that ran \<open>shots\<close> times form a histogram: no count is negative
  and the counts add up to the number of shots.
\<close>

definition histogram :: "nat \<Rightarrow> counts \<Rightarrow> bool" where
  "histogram shots c = ((\<forall>(k, v) \<in> set c. 0 \<le> v) \<and> values_sum c = int shots)"

text \<open>
  A sample run for concrete evaluations: a qubit with a gate time of 60 and a buffer of 10
  in the given unit, and a backend that answers every circuit with the same two counts.
\<close>

definition sample_params :: "string \<Rightarrow> qubit_params" where
  "sample_params u = \<lparr>gateTime_value = 60, gateTime_unit = u, buffer_value = 10\<rparr>"

definition sample_result :: "string \<Rightarrow> counts" where
  "sample_result key = [(''00000'', 24), (''01000'', 1000)]"

text \<open>
  The excited state of the measured qubit reads as the bitstring of the five classical bits
  whose only 1 is the bit of that qubit, bit 4 printed first: \<open>01000\<close> for qubit 3 and
  \<open>00001\<close> for qubit 0.
\<close>

definition excited_state :: "expt \<Rightarrow> string" where
  "excited_state e =
     replicate (4 - qubit e) (CHR ''0'') @ [CHR ''1''] @ replicate (qubit e) (CHR ''0'')"

text \<open>
  The counts of the sample run with the excited state listed first, as a backend that
  orders its outcomes by frequency reports them.
\<close>

definition swapped_result :: "string \<Rightarrow> counts" where
  "swapped_result key = [(''01000'', 1000), (''00000'', 24)]"



text \<open>
  Fitters for concrete evaluations: one that needs an explicit initial guess and one that
  returns a fixed result.
\<close>

definition guess_required :: fitter where
  "guess_required call =
     (case p0 call of None \<Rightarrow> Inl (ValueError ''p0'') | Some g \<Rightarrow> Inr (g, []))"

definition constant_fit :: fitter where
  "constant_fit call = Inr ([1, 50, 0], [[1, 0, 0], [0, 4, 0], [0, 0, 9]])"

section \<open>Properties of the histogram filter\<close>

lemma update_absent_appends:
  "k \<notin> fst ` set al \<Longrightarrow> AList.update k v al = al @ [(k, v)]"
  by (induction al) auto

lemma split_sum_by_threshold:
  "sum_list (map snd (filter (\<lambda>(k, v). v \<ge> t) al))
     + sum_list (map snd (filter (\<lambda>(k, v). v < t) al)) = sum_list (map snd (al :: counts))"
  by (induction al) auto

lemma values_sum_nonneg:
  "\<forall>(k, v) \<in> set c. 0 \<le> v \<Longrightarrow> 0 \<le> values_sum (c :: counts)"
  by (induction c) (auto simp: values_sum_def)

lemma value_le_total:
  "(k, v) \<in> set c \<Longrightarrow> \<forall>(k, v) \<in> set c. 0 \<le> v \<Longrightarrow> v \<le> values_sum (c :: counts)"
proof (induction c)
  case Nil
  then show ?case by simp
next
  case (Cons a c)
  from Cons.prems(2) have rest: "\<forall>(k, v) \<in> set c. 0 \<le> v" and a: "0 \<le> snd a"
    by auto
  show ?case
  proof (cases "(k, v) = a")
    case True
    with values_sum_nonneg [OF rest] show ?thesis by (auto simp: values_sum_def)
  next
    case False
    with Cons.prems(1) have "(k, v) \<in> set c" by simp
    from Cons.IH [OF this rest] a show ?thesis by (simp add: values_sum_def)
  qed
qed

lemma wrap_int64_exact: "fits_int64 v \<Longrightarrow> wrap_int64 v = v"
  by (simp add: fits_int64_def wrap_int64_def)

text \<open>The sum of the removed counts is exact as long as it fits 64 bits.\<close>

lemma np_sum_exact:
  assumes "list_all fits_int64 vs" and "fits_int64 (sum_list vs)"
  shows "\<exists>r. np_sum vs = Some r \<and> number_value (NumPy r) = real_of_int (sum_list vs)"
  using assms by (cases "vs = []") (simp_all add: np_sum_def wrap_int64_exact)

text \<open>Beyond 64 bits it wraps: two counts that add up to \<open>- 2^63 - 1\<close> sum to \<open>2^63 - 1\<close>.\<close>

lemma removedCounts_wraps:
  "map_option (\<lambda>r. number_value (NumPy r))
     (removedCounts 0 [(''0'', - 9223372036854775808), (''1'', - 1)])
   = Some 9223372036854775807"
  by (simp add: removedCounts_def np_sum_def fits_int64_def wrap_int64_def)

lemma total_value_kept:
  "total_value (map (\<lambda>(k, v). (k, PyInt v)) al) = real_of_int (sum_list (map snd al))"
  by (induction al) (auto simp: total_value_def)

lemma filteredAnswer_total_exact:
  assumes "''other_bitstring'' \<notin> set (keys answer)"
    and "list_all fits_int64 (map snd (filter (\<lambda>(k, v). v < threshold) answer))"
    and "fits_int64 (sum_list (map snd (filter (\<lambda>(k, v). v < threshold) answer)))"
  shows "\<exists>filtered. filteredAnswer threshold answer = Some filtered
           \<and> total_value filtered = real_of_int (values_sum answer)"
proof -
  let ?kept = "map (\<lambda>(k, v). (k, PyInt v)) (filter (\<lambda>(k, v). v \<ge> threshold) answer)"
  from np_sum_exact [OF assms(2,3)] obtain r where
    r: "removedCounts threshold answer = Some r"
       "number_value (NumPy r)
          = real_of_int (sum_list (map snd (filter (\<lambda>(k, v). v < threshold) answer)))"
    by (auto simp: removedCounts_def)
  have "''other_bitstring'' \<notin> fst ` set ?kept"
    using assms(1) by (force simp: keys_def)
  then have "AList.update ''other_bitstring'' (NumPy r) ?kept
      = ?kept @ [(''other_bitstring'', NumPy r)]"
    by (rule update_absent_appends)
  with r(1) have f: "filteredAnswer threshold answer
      = Some (?kept @ [(''other_bitstring'', NumPy r)])"
    by (simp add: filteredAnswer_def)
  have "total_value (?kept @ [(''other_bitstring'', NumPy r)])
      = total_value ?kept + number_value (NumPy r)"
    by (simp add: total_value_def)
  also have "\<dots> = real_of_int (values_sum answer)"
    using split_sum_by_threshold [of threshold answer]
    by (simp add: total_value_kept r(2) values_sum_def flip: of_int_add)
  finally show ?thesis using f by simp
qed

text \<open>The counts of a run of fewer than \<open>2^63\<close> shots and their partial sums fit 64 bits.\<close>

lemma histogram_fits_int64:
  assumes "histogram shots answer" and "shots < 2 ^ 63"
  shows "list_all fits_int64 (map snd (filter (\<lambda>(k, v). v < threshold) answer))"
    and "fits_int64 (sum_list (map snd (filter (\<lambda>(k, v). v < threshold) answer)))"
proof -
  from assms(1) have nonneg: "\<forall>(k, v) \<in> set answer. 0 \<le> v"
    and total: "values_sum answer = int shots"
    by (simp_all add: histogram_def)
  from assms(2) have small: "int shots < 2 ^ 63"
    by (metis of_nat_less_iff of_nat_numeral of_nat_power)
  have "fits_int64 v" if "(k, v) \<in> set answer" for k v
    using that nonneg value_le_total [OF that nonneg] total small
    by (auto simp: fits_int64_def)
  then show "list_all fits_int64 (map snd (filter (\<lambda>(k, v). v < threshold) answer))"
    by (auto simp: list_all_iff)
  have "\<forall>(k, v) \<in> set (filter (\<lambda>(k, v). v \<ge> threshold) answer). 0 \<le> v"
    and "\<forall>(k, v) \<in> set (filter (\<lambda>(k, v). v < threshold) answer). 0 \<le> v"
    using nonneg by auto
  then have "0 \<le> sum_list (map snd (filter (\<lambda>(k, v). v \<ge> threshold) answer))"
    and "0 \<le> sum_list (map snd (filter (\<lambda>(k, v). v < threshold) answer))"
    using values_sum_nonneg unfolding values_sum_def by blast+
  with split_sum_by_threshold [of threshold answer] total small
  show "fits_int64 (sum_list (map snd (filter (\<lambda>(k, v). v < threshold) answer)))"
    by (simp add: fits_int64_def values_sum_def)
qed

text \<open>
  Claim C10. The answer is the histogram of a run of \<open>shots\<close> shots, fewer than \<open>2^63\<close>
  (the notebook runs 1000). When it has no key \<open>other_bitstring\<close>, the values of the
  filtered histogram (the entries at or above the threshold, and the sum of the removed
  counts under the new key) add up to the total of the answer.
\<close>

theorem filteredAnswer_preserves_total:
  assumes "''other_bitstring'' \<notin> set (keys answer)"
    and "histogram shots answer" and "shots < 2 ^ 63"
  shows "\<exists>filtered. filteredAnswer threshold answer = Some filtered
           \<and> total_value filtered = real_of_int (values_sum answer)"
  using assms(1) histogram_fits_int64 [OF assms(2,3)]
  by (rule filteredAnswer_total_exact)

theorem filteredAnswer_preserves_total_witness:
  "''other_bitstring'' \<notin> set (keys ([(''000'', 990), (''010'', 7), (''111'', 3)] :: counts))
   \<and> histogram 1000 [(''000'', 990), (''010'', 7), (''111'', 3)]
   \<and> (1000 :: nat) < 2 ^ 63
   \<and> filteredAnswer 30 [(''000'', 990), (''010'', 7), (''111'', 3)]
       = Some [(''000'', PyInt 990), (''other_bitstring'', NumPy (Int64 10))]
   \<and> map_option total_value (filteredAnswer 30 [(''000'', 990), (''010'', 7), (''111'', 3)])
       = Some 1000"
proof -
  have k: "''other_bitstring'' \<notin> set (keys ([(''000'', 990), (''010'', 7), (''111'', 3)] :: counts))"
    by (simp add: keys_def)
  have h: "histogram 1000 [(''000'', 990), (''010'', 7), (''111'', 3)]"
    by (simp add: histogram_def values_sum_def)
  have s: "(1000 :: nat) < 2 ^ 63" by simp
  have f: "filteredAnswer 30 [(''000'', 990), (''010'', 7), (''111'', 3)]
       = Some [(''000'', PyInt 990), (''other_bitstring'', NumPy (Int64 10))]"
    by (simp add: filteredAnswer_def removedCounts_def np_sum_def fits_int64_def wrap_int64_def)
  from filteredAnswer_preserves_total [OF k h s, of 30]
  have "map_option total_value (filteredAnswer 30 [(''000'', 990), (''010'', 7), (''111'', 3)])
       = Some 1000"
    by (auto simp: values_sum_def)
  with k h s f show ?thesis by blast
qed

section \<open>Circuit names and the keys of the dictionary of circuits\<close>

lemma digit_char_inj: "a < 10 \<Longrightarrow> b < 10 \<Longrightarrow> digit_char a = digit_char b \<Longrightarrow> a = b"
proof -
  assume a: "a < 10" and b: "b < 10" and eq: "digit_char a = digit_char b"
  have "distinct ''0123456789''" by simp
  with a b eq show "a = b"
    unfolding digit_char_def by (simp add: nth_eq_iff_index_eq)
qed

lemma str_nonempty: "str n \<noteq> []"
  by (subst str.simps) simp

lemma str_last: "last (str n) = digit_char (n mod 10)"
  by (subst str.simps) simp

lemma str_butlast: "butlast (str n) = (if n < 10 then [] else str (n div 10))"
  by (subst str.simps) simp

lemma str_inj: "str n = str m \<Longrightarrow> n = m"
proof (induction n arbitrary: m rule: less_induct)
  case (less n)
  from less.prems have l: "digit_char (n mod 10) = digit_char (m mod 10)"
    using str_last [of n] str_last [of m] by simp
  then have md: "n mod 10 = m mod 10"
    by (rule digit_char_inj [rotated 2]) simp_all
  from less.prems have b: "butlast (str n) = butlast (str m)" by simp
  show ?case
  proof (cases "n < 10")
    case True
    with b have "m < 10"
      using str_nonempty [of "m div 10"] by (auto simp: str_butlast split: if_splits)
    with True md show ?thesis by simp
  next
    case False
    with b have m: "\<not> m < 10"
      using str_nonempty [of "n div 10"] by (auto simp: str_butlast split: if_splits)
    with False b have "str (n div 10) = str (m div 10)" by (simp add: str_butlast)
    moreover from False have "n div 10 < n" by simp
    ultimately have "n div 10 = m div 10" by (rule less.IH [rotated])
    with md show ?thesis by (metis div_mult_mod_eq)
  qed
qed

lemma step_num_inj: "step_num i = step_num j \<Longrightarrow> i = j"
  by (simp add: step_num_def str_inj)

lemma keys_update_new:
  "k \<notin> set (keys d) \<Longrightarrow> keys (AList.update k v d) = keys d @ [k]"
  by (induction d) (auto simp: keys_def)

lemma keys_fold_update:
  "distinct (map nm is) \<Longrightarrow> set (map nm is) \<inter> set (keys d) = {} \<Longrightarrow>
   keys (fold (\<lambda>ii d. AList.update (nm ii) (c ii) d) is d) = keys d @ map nm is"
proof (induction "is" arbitrary: d)
  case Nil
  then show ?case by simp
next
  case (Cons i "is")
  from Cons.prems have new: "nm i \<notin> set (keys d)" by auto
  have "keys (fold (\<lambda>ii d. AList.update (nm ii) (c ii) d) is (AList.update (nm i) (c i) d))
      = keys (AList.update (nm i) (c i) d) @ map nm is"
    using Cons.prems new by (intro Cons.IH) (auto simp: keys_update_new)
  then show ?case using new by (simp add: keys_update_new)
qed

lemma keys_qc_dict: "keys (qc_dict e) = map step_num [0..<steps e]"
proof -
  have "distinct (map step_num [0..<steps e])"
    by (simp add: distinct_map inj_on_def) (meson step_num_inj)
  then show ?thesis
    unfolding qc_dict_def by (subst keys_fold_update) (simp_all add: keys_def)
qed

lemma length_keys_qc_dict: "length (keys (qc_dict e)) = steps e"
  by (simp add: keys_qc_dict)

lemma find_from_sublist: "(find_from sub s i > - 1) = sublist sub s"
  by (induction s arbitrary: i) (auto simp: sublist_Cons_right)

lemma str_find_sublist: "(str_find s sub > - 1) = sublist sub s"
  by (simp add: str_find_def find_from_sublist)

lemma linspace_length: "length (linspace a b n) = n"
  by (auto simp: linspace_def)

lemma linspace_nth:
  "i < n \<Longrightarrow> 2 \<le> n \<Longrightarrow> linspace a b n ! i = a + real i * ((b - a) / real (n - 1))"
  by (cases "i = n - 1") (auto simp: linspace_def nth_append)

section \<open>The loop that arranges the data\<close>


lemma excited_counts_getitem:
  "2 \<le> length keys_0_1 \<Longrightarrow>
   excited_counts result keys_0_1 key = getitem (result key) (keys_0_1 ! 1)"
  by (simp add: excited_counts_def index_def)

lemma map_of_keys: "(map_of d k = None) = (k \<notin> set (keys d))"
  by (simp add: keys_def map_of_eq_None_iff)


lemma getitem_present:
  "k \<in> set (keys d) \<Longrightarrow> \<exists>v. getitem d k = Inr v \<and> (k, v) \<in> set d"
proof -
  assume "k \<in> set (keys d)"
  then have "map_of d k \<noteq> None" by (simp add: map_of_keys)
  then obtain v where "map_of d k = Some v" by blast
  then show ?thesis by (auto simp: getitem_def dest: map_of_SomeD)
qed


lemma arrange_loop_Inr:
  assumes "arrange_loop result keys_0_1 shots ps (ds, sg) = Inr (ds', sg')"
    and "distinct (map fst ps)"
  shows "length ds' = length ds \<and> length sg' = length sg
    \<and> (\<forall>(ii, key) \<in> set ps. \<exists>c. excited_counts result keys_0_1 key = Inr c
          \<and> normalized c shots = Inr (ds' ! ii) \<and> sg' ! ii = sigma_of (ds' ! ii) shots)
    \<and> (\<forall>i. i \<notin> fst ` set ps \<longrightarrow> ds' ! i = ds ! i \<and> sg' ! i = sg ! i)"
  using assms
proof (induction ps arbitrary: ds sg)
  case Nil
  then show ?case by simp
next
  case (Cons p ps)
  obtain ii key where p: "p = (ii, key)" by (cases p)
  from Cons.prems(1) obtain c d where
    c: "excited_counts result keys_0_1 key = Inr c" and
    d: "normalized c shots = Inr d" and
    ii: "ii < length ds" "ii < length sg" and
    rest: "arrange_loop result keys_0_1 shots ps (ds[ii := d], sg[ii := sigma_of d shots])
             = Inr (ds', sg')"
    by (auto simp: p split: sum.splits if_splits)
  from Cons.prems(2) have dist: "distinct (map fst ps)" and fresh: "ii \<notin> fst ` set ps"
    by (auto simp: p)
  note IH = Cons.IH [OF rest dist]
  from IH fresh ii have here: "ds' ! ii = d" "sg' ! ii = sigma_of d shots"
    by auto
  show ?case
    using IH c d here ii by (auto simp: p)
qed

lemma arrange_loop_succeeds:
  assumes "2 \<le> length keys_0_1" and "shots \<noteq> 0"
    and "\<forall>(ii, key) \<in> set ps. keys_0_1 ! 1 \<in> set (keys (result key))"
    and "\<forall>(ii, key) \<in> set ps. ii < length ds \<and> ii < length sg"
  shows "\<exists>out. arrange_loop result keys_0_1 shots ps (ds, sg) = Inr out"
  using assms(3,4)
proof (induction ps arbitrary: ds sg)
  case Nil
  then show ?case by simp
next
  case (Cons p ps)
  obtain ii key where p: "p = (ii, key)" by (cases p)
  from Cons.prems(1) obtain v where v: "getitem (result key) (keys_0_1 ! 1) = Inr v"
    using getitem_present by (fastforce simp: p)
  have "\<exists>out. arrange_loop result keys_0_1 shots ps
            (ds[ii := real_of_int v / real shots], sg[ii := sigma_of (real_of_int v / real shots) shots])
          = Inr out"
    using Cons.prems by (intro Cons.IH) auto
  then show ?case
    using assms(1,2) v Cons.prems(2)
    by (simp add: p excited_counts_getitem normalized_def)
qed

lemma enumerate_steps:
  "enumerate 0 (keys (qc_dict e)) = map (\<lambda>ii. (ii, step_num ii)) [0..<steps e]"
  by (simp add: keys_qc_dict enumerate_eq_zip zip_map2 zip_same_conv_map map_nth
      list_eq_iff_nth_eq)

section \<open>Probabilities and their standard errors\<close>

lemma arrange_data_nth:
  assumes "arrange_data e shots result = Inr (ds, sigmas)" and "ii < steps e"
  shows "\<exists>c. excited_counts result (keys (result ''step_0'')) (step_num ii) = Inr c
           \<and> normalized c shots = Inr (ds ! ii) \<and> sigmas ! ii = sigma_of (ds ! ii) shots"
proof -
  let ?ps = "map (\<lambda>ii. (ii, step_num ii)) [0..<steps e]"
  have loop: "arrange_loop result (keys (result ''step_0'')) shots ?ps
      (replicate (steps e) 0, replicate (steps e) (Some 0)) = Inr (ds, sigmas)"
    using assms(1) by (simp add: arrange_data_def enumerate_steps length_keys_qc_dict)
  have "distinct (map fst ?ps)" by (simp add: comp_def)
  from arrange_loop_Inr [OF loop this] assms(2) show ?thesis by auto
qed

lemma arrange_data_length:
  assumes "arrange_data e shots result = Inr (ds, sigmas)"
  shows "length ds = steps e \<and> length sigmas = steps e"
proof -
  let ?ps = "map (\<lambda>ii. (ii, step_num ii)) [0..<steps e]"
  have loop: "arrange_loop result (keys (result ''step_0'')) shots ?ps
      (replicate (steps e) 0, replicate (steps e) (Some 0)) = Inr (ds, sigmas)"
    using assms(1) by (simp add: arrange_data_def enumerate_steps length_keys_qc_dict)
  have "distinct (map fst ?ps)" by (simp add: comp_def)
  from arrange_loop_Inr [OF loop this] show ?thesis by simp
qed

lemma excited_counts_Inr:
  "excited_counts result ks key = Inr c \<Longrightarrow>
   \<exists>k. index ks 1 = Inr k \<and> getitem (result key) k = Inr c"
  by (auto simp: excited_counts_def split: sum.splits)

lemma normalized_Inr:
  "normalized c shots = Inr d \<Longrightarrow> shots \<noteq> 0 \<and> d = real_of_int c / real shots"
  by (auto simp: normalized_def split: if_splits)


lemma arrange_data_succeeds:
  assumes "2 \<le> length (keys (result ''step_0''))" and "shots \<noteq> 0"
    and "\<forall>ii<steps e. keys (result ''step_0'') ! 1 \<in> set (keys (result (step_num ii)))"
  shows "\<exists>ds sigmas. arrange_data e shots result = Inr (ds, sigmas)"
proof -
  have "\<exists>out. arrange_loop result (keys (result ''step_0'')) shots
      (map (\<lambda>ii. (ii, step_num ii)) [0..<steps e])
      (replicate (steps e) 0, replicate (steps e) (Some 0)) = Inr out"
    using assms by (intro arrange_loop_succeeds) auto
  then show ?thesis
    by (auto simp: arrange_data_def enumerate_steps length_keys_qc_dict)
qed

lemma sample_run_succeeds:
  "\<exists>ds sigmas. arrange_data e 1024 sample_result = Inr (ds, sigmas)"
  by (rule arrange_data_succeeds) (simp_all add: sample_result_def keys_def)

text \<open>
  In a run whose data was arranged without an exception, the value of step \<open>ii\<close> is the
  count under the second key of the counts of step 0, looked up in the counts of step
  \<open>ii\<close>, over the number of shots.
\<close>

lemma arrange_data_second_key:
  assumes "arrange_data e shots result = Inr (ds, sigmas)" and "ii < steps e"
  shows "\<exists>k c. index (keys (result ''step_0'')) 1 = Inr k
           \<and> getitem (result (step_num ii)) k = Inr c
           \<and> shots \<noteq> 0
           \<and> ds ! ii = real_of_int c / real shots
           \<and> sigmas ! ii = sigma_of (ds ! ii) shots"
proof -
  from arrange_data_nth [OF assms] obtain c where
    c: "excited_counts result (keys (result ''step_0'')) (step_num ii) = Inr c" and
    d: "normalized c shots = Inr (ds ! ii)" and
    s: "sigmas ! ii = sigma_of (ds ! ii) shots"
    by blast
  from excited_counts_Inr [OF c] obtain k where
    k: "index (keys (result ''step_0'')) 1 = Inr k" "getitem (result (step_num ii)) k = Inr c"
    by blast
  from normalized_Inr [OF d] have n: "shots \<noteq> 0" "ds ! ii = real_of_int c / real shots"
    by simp_all
  with k s show ?thesis by blast
qed

text \<open>
  The error of a value \<open>p\<close> between 0 and 1 is the binomial standard error, the square
  root of \<open>p * (1 - p) / shots\<close>.
\<close>

lemma sigma_of_binomial:
  assumes "shots \<noteq> 0" and "0 \<le> p" and "p \<le> 1"
  shows "sigma_of p shots = Some (sqrt (p * (1 - p) / real shots))"
proof -
  from assms(2,3) have "0 \<le> p * (1 - p)" by simp
  with assms(1) show ?thesis
    by (simp add: sigma_of_def np_sqrt_def np_div_def real_sqrt_divide not_less)
qed

text \<open>
  When the second key of step 0 is the excited state, the values are what the comments of
  the cell announce: the counts of the excited state over the shots, with their binomial
  standard errors.
\<close>

lemma excited_state_second_key:
  assumes "arrange_data e shots result = Inr (ds, sigmas)" and "ii < steps e"
    and "index (keys (result ''step_0'')) 1 = Inr (excited_state e)"
    and "\<forall>ii<steps e. histogram shots (result (step_num ii))"
  shows "\<exists>c. getitem (result (step_num ii)) (excited_state e) = Inr c
           \<and> ds ! ii = real_of_int c / real shots
           \<and> sigmas ! ii = Some (sqrt (ds ! ii * (1 - ds ! ii) / real shots))"
proof -
  from arrange_data_second_key [OF assms(1,2)] assms(3) obtain c where
    c: "getitem (result (step_num ii)) (excited_state e) = Inr c" and
    n: "shots \<noteq> 0" "ds ! ii = real_of_int c / real shots" and
    s: "sigmas ! ii = sigma_of (ds ! ii) shots"
    by auto
  have mem: "(excited_state e, c) \<in> set (result (step_num ii))"
    using c by (auto simp: getitem_def split: option.splits dest: map_of_SomeD)
  from assms(2,4) have h: "histogram shots (result (step_num ii))" by simp
  from h mem have "0 \<le> c" by (auto simp: histogram_def)
  moreover from h mem have "c \<le> int shots"
    using value_le_total [of "excited_state e" c "result (step_num ii)"]
    by (auto simp: histogram_def)
  ultimately have "0 \<le> ds ! ii" "ds ! ii \<le> 1"
    using n by (simp_all add: divide_le_eq_1)
  with s n(1) have "sigmas ! ii = Some (sqrt (ds ! ii * (1 - ds ! ii) / real shots))"
    by (simp add: sigma_of_binomial)
  with c n(2) show ?thesis by blast
qed

text \<open>The data of a run in which the backend answers every circuit with the same counts.\<close>

lemma constant_run_data:
  assumes "\<forall>key. result key = c" and "2 \<le> length (keys c)"
    and "getitem c (keys c ! 1) = Inr v" and "shots \<noteq> 0"
  shows "map_sum id fst (arrange_data e shots result)
    = Inr (replicate (steps e) (real_of_int v / real shots))"
proof -
  from assms(1) have r0: "result ''step_0'' = c" by simp
  have "keys c ! 1 \<in> set (keys c)"
    using assms(2) by simp
  with assms(1,2,4) obtain ds sigmas where run: "arrange_data e shots result = Inr (ds, sigmas)"
    using arrange_data_succeeds [of result shots e] by auto
  have "ds ! ii = real_of_int v / real shots" if "ii < steps e" for ii
    using arrange_data_second_key [OF run that] assms(1,2,3)
    by (auto simp: index_def split: if_splits)
  moreover have "length ds = steps e"
    using arrange_data_length [OF run] by simp
  ultimately have "ds = replicate (steps e) (real_of_int v / real shots)"
    by (simp add: list_eq_iff_nth_eq)
  with run show ?thesis by simp
qed

text \<open>
  Claim C2, evaluated on the T1 experiment for a backend that lists the excited state
  first: 1000 of the 1024 shots of every circuit read \<open>01000\<close>, the excited state of
  qubit 3, and 24 read \<open>00000\<close>. The second key of step 0 is then \<open>00000\<close>, and the value of
  every step is 24/1024, the fraction of the ground state, where the excited-state count
  over the shots is 1000/1024.
\<close>

theorem second_key_is_not_the_excited_state:
  "excited_state T1 = ''01000''
   \<and> getitem (swapped_result (step_num 0)) (excited_state T1) = Inr 1000
   \<and> getitem (swapped_result (step_num 9)) (excited_state T1) = Inr 1000
   \<and> index (keys (swapped_result ''step_0'')) 1 = Inr ''00000''
   \<and> map_sum id fst (arrange_data T1 1024 swapped_result) = Inr (replicate 10 (24 / 1024))"
proof -
  have e: "excited_state T1 = ''01000''"
    by (simp add: excited_state_def numeral_3_eq_3)
  have g: "getitem (swapped_result key) ''01000'' = Inr 1000" for key
    by (simp add: swapped_result_def getitem_def)
  have k: "index (keys (swapped_result ''step_0'')) 1 = Inr ''00000''"
    by (simp add: swapped_result_def keys_def index_def)
  have "map_sum id fst (arrange_data T1 1024 swapped_result)
      = Inr (replicate (steps T1) (real_of_int 24 / real 1024))"
    by (rule constant_run_data [where c = "[(''01000'', 1000), (''00000'', 24)]"])
      (simp_all add: swapped_result_def keys_def getitem_def)
  then have d: "map_sum id fst (arrange_data T1 1024 swapped_result)
      = Inr (replicate 10 (24 / 1024))"
    by simp
  from e g k d show ?thesis by simp
qed

lemma getitem_Inr_mem: "getitem d k = Inr v \<Longrightarrow> (k, v) \<in> set d"
  by (auto simp: getitem_def split: option.splits dest: map_of_SomeD)

text \<open>
  Claim C3. When the counts of every step are a histogram of \<open>shots\<close> runs, each
  normalized value lies between 0 and 1.
\<close>

theorem probability_in_unit_interval:
  assumes "arrange_data e shots result = Inr (ds, sigmas)"
    and "\<forall>ii<steps e. histogram shots (result (step_num ii))"
    and "ii < steps e"
  shows "0 \<le> ds ! ii \<and> ds ! ii \<le> 1"
proof -
  from arrange_data_nth [OF assms(1,3)] obtain c where
    c: "excited_counts result (keys (result ''step_0'')) (step_num ii) = Inr c" and
    d: "normalized c shots = Inr (ds ! ii)"
    by blast
  from excited_counts_Inr [OF c] obtain k where "getitem (result (step_num ii)) k = Inr c"
    by blast
  then have mem: "(k, c) \<in> set (result (step_num ii))" by (rule getitem_Inr_mem)
  from assms(2,3) have h: "histogram shots (result (step_num ii))" by simp
  from h mem have "0 \<le> c" by (auto simp: histogram_def)
  moreover from h mem have "c \<le> int shots"
    using value_le_total [of k c "result (step_num ii)"] by (auto simp: histogram_def)
  moreover from normalized_Inr [OF d] have "shots \<noteq> 0" "ds ! ii = real_of_int c / real shots"
    by simp_all
  ultimately show ?thesis by (simp add: divide_le_eq_1)
       
qed

theorem probability_in_unit_interval_witness:
  "\<exists>ds sigmas. arrange_data T2s 1024 sample_result = Inr (ds, sigmas)
     \<and> (\<forall>ii<steps T2s. histogram 1024 (sample_result (step_num ii)))
     \<and> (39::nat) < steps T2s
     \<and> 0 \<le> ds ! 39 \<and> ds ! 39 \<le> 1"
proof -
  obtain ds sigmas where run: "arrange_data T2s 1024 sample_result = Inr (ds, sigmas)"
    using sample_run_succeeds by blast
  have h: "\<forall>ii<steps T2s. histogram 1024 (sample_result (step_num ii))"
    by (simp add: histogram_def sample_result_def values_sum_def)
  have "(39::nat) < steps T2s" by simp
  from probability_in_unit_interval [OF run h this] run h show ?thesis
    by auto
qed

section \<open>The cell as a whole: unit conversion, fit and plot\<close>

lemma unit_conversion_ns:
  "sublist ''ns'' u \<Longrightarrow> unit_conversion u punit_before = (1000, Some mu_s)"
  by (simp add: unit_conversion_def str_find_sublist)

lemma unit_conversion_other:
  "\<not> sublist ''ns'' u \<Longrightarrow> unit_conversion u punit_before = (1, punit_before)"
  by (simp add: unit_conversion_def str_find_sublist)

lemma ns_not_in_us: "\<not> sublist ''ns'' ''us''"
  using str_find_sublist [of "''us''" "''ns''"] by (simp add: str_find_def)

lemma arrange_cell_fst:
  "fst (arrange_cell e params shots result curve_fit punit_before)
     = snd (unit_conversion (gateTime_unit params) punit_before)"
  by (cases "unit_conversion (gateTime_unit params) punit_before")
    (auto simp: arrange_cell_def Let_def split: sum.splits prod.splits option.splits)

lemma arrange_cell_snd:
  "snd (arrange_cell e params shots result curve_fit punit_before) =
     (case arrange_data e shots result of
        Inl err \<Rightarrow> Inl err
      | Inr (ds, sigmas) \<Rightarrow>
         (case curve_fit (curve_fit_call e
                 (xvals_of e params (fst (unit_conversion (gateTime_unit params) punit_before))) ds) of
            Inl err \<Rightarrow> Inl err
          | Inr (popt, pcov) \<Rightarrow>
             (case snd (unit_conversion (gateTime_unit params) punit_before) of
                None \<Rightarrow> Inl (NameError ''punit'')
              | Some pu \<Rightarrow>
                 Inr \<lparr>xvals = xvals_of e params
                                (fst (unit_conversion (gateTime_unit params) punit_before)),
                      data = ds, sigma_data = sigmas, fit = popt,
                      fcov = pcov, ferr = map np_sqrt (diag pcov), plot_unit = pu\<rparr>)))"
  by (cases "unit_conversion (gateTime_unit params) punit_before")
    (auto simp: arrange_cell_def Let_def split: sum.splits prod.splits option.splits)

text \<open>
  Nothing between the call of the fitter and the end of the cell catches an exception:
  an exception that the fitter raises is the outcome of the cell.
\<close>

lemma fit_exception_ends_cell:
  assumes "arrange_data e shots result = Inr (ds, sigmas)"
    and "curve_fit (curve_fit_call e
           (xvals_of e params (fst (unit_conversion (gateTime_unit params) punit_before))) ds) = Inl err"
  shows "snd (arrange_cell e params shots result curve_fit punit_before) = Inl err"
  using assms by (simp add: arrange_cell_snd)

text \<open>
  Claim C8, as stated, fails in a kernel where an earlier cell has assigned \<open>punit\<close>: for a
  unit without \<open>ns\<close> the cell then finds the name defined, does not fail and plots with the
  unit left behind.
\<close>

theorem stale_punit_cell_succeeds:
  "\<not> sublist ''ns'' (gateTime_unit (sample_params ''us''))
   \<and> fst (arrange_cell T2e (sample_params ''us'') 1024 sample_result constant_fit (Some mu_s))
       = Some mu_s
   \<and> \<not> isl (snd (arrange_cell T2e (sample_params ''us'') 1024 sample_result constant_fit
                  (Some mu_s)))
   \<and> map_sum id plot_unit
        (snd (arrange_cell T2e (sample_params ''us'') 1024 sample_result constant_fit (Some mu_s)))
       = Inr mu_s"
proof -
  have us: "\<not> sublist ''ns'' (gateTime_unit (sample_params ''us''))"
    by (simp add: sample_params_def ns_not_in_us)
  obtain ds sigmas where run: "arrange_data T2e 1024 sample_result = Inr (ds, sigmas)"
    using sample_run_succeeds by blast
  from us run show ?thesis
    by (simp add: arrange_cell_fst arrange_cell_snd unit_conversion_other constant_fit_def)
qed

text \<open>
  Claim C8, amended. The cell assigns \<open>punit\<close> exactly when the unit of the gate time
  contains \<open>ns\<close>. For any other unit the plot factor stays 1, so the x values are not
  scaled, and \<open>punit\<close> keeps the value it had. In a kernel where no cell has assigned it,
  the cell then ends with an exception, which is the NameError for \<open>punit\<close> as soon as the
  data and the fit went through. In a kernel where an earlier cell has assigned it, the
  cell goes through with the unscaled x values and that earlier unit.
\<close>

theorem punit_assigned_only_for_ns:
  "(sublist ''ns'' (gateTime_unit params) \<longrightarrow>
      fst (arrange_cell e params shots result curve_fit punit_before) = Some mu_s)
   \<and> (\<not> sublist ''ns'' (gateTime_unit params) \<longrightarrow>
        unit_conversion (gateTime_unit params) punit_before = (1, punit_before)
      \<and> fst (arrange_cell e params shots result curve_fit punit_before) = punit_before
      \<and> (punit_before = None \<longrightarrow>
           (\<exists>err. snd (arrange_cell e params shots result curve_fit punit_before) = Inl err)
         \<and> (\<forall>ds sigmas r. arrange_data e shots result = Inr (ds, sigmas) \<longrightarrow>
               curve_fit (curve_fit_call e (xvals_of e params 1) ds) = Inr r \<longrightarrow>
               snd (arrange_cell e params shots result curve_fit punit_before)
                 = Inl (NameError ''punit'')))
      \<and> (\<forall>pu ds sigmas popt pcov. punit_before = Some pu \<longrightarrow>
            arrange_data e shots result = Inr (ds, sigmas) \<longrightarrow>
            curve_fit (curve_fit_call e (xvals_of e params 1) ds) = Inr (popt, pcov) \<longrightarrow>
            snd (arrange_cell e params shots result curve_fit punit_before)
              = Inr \<lparr>xvals = xvals_of e params 1, data = ds, sigma_data = sigmas,
                     fit = popt, fcov = pcov, ferr = map np_sqrt (diag pcov),
                     plot_unit = pu\<rparr>))"
proof (intro conjI impI)
  assume "sublist ''ns'' (gateTime_unit params)"
  then show "fst (arrange_cell e params shots result curve_fit punit_before) = Some mu_s"
    by (simp add: arrange_cell_fst unit_conversion_ns)
next
  assume "\<not> sublist ''ns'' (gateTime_unit params)"
  then show "unit_conversion (gateTime_unit params) punit_before = (1, punit_before)"
    by (rule unit_conversion_other)
next
  assume "\<not> sublist ''ns'' (gateTime_unit params)"
  then show "fst (arrange_cell e params shots result curve_fit punit_before) = punit_before"
    by (simp add: arrange_cell_fst unit_conversion_other)
next
  assume "\<not> sublist ''ns'' (gateTime_unit params)" and "punit_before = None"
  then show "\<exists>err. snd (arrange_cell e params shots result curve_fit punit_before) = Inl err"
    by (auto simp: arrange_cell_snd unit_conversion_other split: sum.splits)
next
  assume "\<not> sublist ''ns'' (gateTime_unit params)" and "punit_before = None"
  then show "\<forall>ds sigmas r. arrange_data e shots result = Inr (ds, sigmas) \<longrightarrow>
               curve_fit (curve_fit_call e (xvals_of e params 1) ds) = Inr r \<longrightarrow>
               snd (arrange_cell e params shots result curve_fit punit_before)
                 = Inl (NameError ''punit'')"
    by (auto simp: arrange_cell_snd unit_conversion_other split: sum.splits)
next
  assume "\<not> sublist ''ns'' (gateTime_unit params)"
  then show "\<forall>pu ds sigmas popt pcov. punit_before = Some pu \<longrightarrow>
            arrange_data e shots result = Inr (ds, sigmas) \<longrightarrow>
            curve_fit (curve_fit_call e (xvals_of e params 1) ds) = Inr (popt, pcov) \<longrightarrow>
            snd (arrange_cell e params shots result curve_fit punit_before)
              = Inr \<lparr>xvals = xvals_of e params 1, data = ds, sigma_data = sigmas,
                     fit = popt, fcov = pcov, ferr = map np_sqrt (diag pcov),
                     plot_unit = pu\<rparr>"
    by (auto simp: arrange_cell_snd unit_conversion_other)
qed

theorem punit_assigned_only_for_ns_witness:
  "sublist ''ns'' (gateTime_unit (sample_params ''ns''))
   \<and> fst (arrange_cell T2e (sample_params ''ns'') 1024 sample_result constant_fit None) = Some mu_s
   \<and> \<not> sublist ''ns'' (gateTime_unit (sample_params ''us''))
   \<and> unit_conversion (gateTime_unit (sample_params ''us'')) None = (1, None)
   \<and> fst (arrange_cell T2e (sample_params ''us'') 1024 sample_result constant_fit None) = None
   \<and> snd (arrange_cell T2e (sample_params ''us'') 1024 sample_result constant_fit None)
       = Inl (NameError ''punit'')
   \<and> (\<exists>ds sigmas. arrange_data T2e 1024 sample_result = Inr (ds, sigmas)
        \<and> snd (arrange_cell T2e (sample_params ''us'') 1024 sample_result constant_fit
                 (Some mu_s))
            = Inr \<lparr>xvals = xvals_of T2e (sample_params ''us'') 1, data = ds,
                   sigma_data = sigmas, fit = [1, 50, 0],
                   fcov = [[1, 0, 0], [0, 4, 0], [0, 0, 9]],
                   ferr = map np_sqrt (diag [[1, 0, 0], [0, 4, 0], [0, 0, 9]]),
                   plot_unit = mu_s\<rparr>)"
proof -
  have ns: "sublist ''ns'' (gateTime_unit (sample_params ''ns''))"
    by (simp add: sample_params_def)
  have us: "\<not> sublist ''ns'' (gateTime_unit (sample_params ''us''))"
    by (simp add: sample_params_def ns_not_in_us)
  obtain ds sigmas where run: "arrange_data T2e 1024 sample_result = Inr (ds, sigmas)"
    using sample_run_succeeds by blast
  have fit: "constant_fit (curve_fit_call T2e (xvals_of T2e (sample_params ''us'') 1) ds)
      = Inr ([1, 50, 0], [[1, 0, 0], [0, 4, 0], [0, 0, 9]])"
    by (simp add: constant_fit_def)
  note fresh_ns = punit_assigned_only_for_ns
         [of "sample_params ''ns''" T2e 1024 sample_result constant_fit None]
  note fresh_us = punit_assigned_only_for_ns
         [of "sample_params ''us''" T2e 1024 sample_result constant_fit None]
  note stale_us = punit_assigned_only_for_ns
         [of "sample_params ''us''" T2e 1024 sample_result constant_fit "Some mu_s"]
  from fresh_ns ns
  have A: "fst (arrange_cell T2e (sample_params ''ns'') 1024 sample_result constant_fit None)
      = Some mu_s"
    by blast
  from fresh_us us run fit
  have B: "unit_conversion (gateTime_unit (sample_params ''us'')) None = (1, None)"
    and C: "fst (arrange_cell T2e (sample_params ''us'') 1024 sample_result constant_fit None)
      = None"
    and D: "snd (arrange_cell T2e (sample_params ''us'') 1024 sample_result constant_fit None)
       = Inl (NameError ''punit'')"
    by blast+
  from stale_us us run fit
  have E: "snd (arrange_cell T2e (sample_params ''us'') 1024 sample_result constant_fit
                 (Some mu_s))
            = Inr \<lparr>xvals = xvals_of T2e (sample_params ''us'') 1, data = ds,
                   sigma_data = sigmas, fit = [1, 50, 0],
                   fcov = [[1, 0, 0], [0, 4, 0], [0, 0, 9]],
                   ferr = map np_sqrt (diag [[1, 0, 0], [0, 4, 0], [0, 0, 9]]),
                   plot_unit = mu_s\<rparr>"
    by blast
  from ns A us B C D run E show ?thesis by blast
qed

section \<open>Selection and lookup of the excited-state key\<close>

lemma step_num_0: "step_num 0 = ''step_0''"
  by (simp add: step_num_def str.simps digit_char_def)






section \<open>The x values and the arguments of the fit\<close>

lemma xvals_of_length: "length (xvals_of e params plot_factor) = steps e"
  by (simp add: xvals_of_def linspace_length length_keys_qc_dict)

lemma steps_ge_2: "2 \<le> steps e"
  by (cases e) simp_all

lemma xvals_of_nth:
  assumes "ii < steps e"
  shows "xvals_of e params plot_factor ! ii
    = time_per_step e params * (real ii * (real (steps e) / real (steps e - 1)))
        / real plot_factor"
  using assms steps_ge_2 [of e]
  by (simp add: xvals_of_def length_keys_qc_dict linspace_length linspace_nth)

lemma idens_pad_QId:
  "length (filter (\<lambda>g. case g of Iden q \<Rightarrow> True | _ \<Rightarrow> False) (pad_QId circuit N qr))
     = length (filter (\<lambda>g. case g of Iden q \<Rightarrow> True | _ \<Rightarrow> False) circuit) + N"
  by (induction N arbitrary: circuit) simp_all

lemma delay_T1: "delay (step_circuit T1 ii) params = real ii * time_per_step T1 params"
  by (simp add: delay_def idens_pad_QId)

lemma delay_T2s: "delay (step_circuit T2s ii) params = real ii * time_per_step T2s params"
  by (simp add: delay_def idens_pad_QId)

lemma delay_T2e: "delay (step_circuit T2e ii) params = real ii * time_per_step T2e params"
  by (simp add: delay_def idens_pad_QId algebra_simps)

text \<open>
  Claim C1, evaluated on the T1 experiment for a qubit with a gate time of 60 ns and a
  buffer of 10 ns. The circuit of step \<open>ii\<close> holds \<open>80 * ii\<close> identity gates, a delay of
  \<open>ii * time_per_step\<close>: 5.6 microseconds at step 1 and 50.4 at step 9. The x values of
  these steps are 56/9 and 56 microseconds: \<open>linspace\<close> from 0 to the number of steps
  spaces its samples by \<open>steps / (steps - 1)\<close>, not by 1.
\<close>

theorem T1_xvals_differ_from_delay:
  "fst (unit_conversion (gateTime_unit (sample_params ''ns'')) None) = 1000
   \<and> time_per_step T1 (sample_params ''ns'') = 5600
   \<and> delay (step_circuit T1 1) (sample_params ''ns'') / 1000 = 28 / 5
   \<and> xvals_of T1 (sample_params ''ns'') 1000 ! 1 = 56 / 9
   \<and> delay (step_circuit T1 9) (sample_params ''ns'') / 1000 = 252 / 5
   \<and> xvals_of T1 (sample_params ''ns'') 1000 ! 9 = 56"
proof -
  have ns: "sublist ''ns'' (gateTime_unit (sample_params ''ns''))"
    by (simp add: sample_params_def)
  have tot: "tot_length (sample_params ''ns'') = 70"
    by (simp add: sample_params_def tot_length_def)
  have factor: "fst (unit_conversion (gateTime_unit (sample_params ''ns'')) None) = 1000"
    using ns by (simp add: unit_conversion_ns)
  have tps: "time_per_step T1 (sample_params ''ns'') = 5600"
    by (simp add: tot)
  have d1: "delay (step_circuit T1 1) (sample_params ''ns'') / 1000 = 28 / 5"
    by (simp add: delay_T1 tot del: step_circuit.simps)
  have x1: "xvals_of T1 (sample_params ''ns'') 1000 ! 1 = 56 / 9"
    by (simp add: xvals_of_nth tot)
  have d9: "delay (step_circuit T1 9) (sample_params ''ns'') / 1000 = 252 / 5"
    by (simp add: delay_T1 tot del: step_circuit.simps)
  have x9: "xvals_of T1 (sample_params ''ns'') 1000 ! 9 = 56"
    by (simp add: xvals_of_nth tot)
  from factor tps d1 x1 d9 x9 show ?thesis by blast
qed

text \<open>
  Claim C6, as stated, fails for the T1 cell: its call of the fitter carries no initial
  guess, and a fitter that insists on one makes the cell end with that fitter's exception.
\<close>

theorem T1_fit_without_initial_guess:
  "p0 (curve_fit_call T1 (xvals_of T1 (sample_params ''ns'') 1000) (replicate 10 (125 / 128))) = None
   \<and> snd (arrange_cell T1 (sample_params ''ns'') 1024 sample_result guess_required None)
       = Inl (ValueError ''p0'')"
proof -
  obtain ds sigmas where run: "arrange_data T1 1024 sample_result = Inr (ds, sigmas)"
    using sample_run_succeeds by blast
  then have "snd (arrange_cell T1 (sample_params ''ns'') 1024 sample_result guess_required None)
       = Inl (ValueError ''p0'')"
    by (simp add: arrange_cell_snd guess_required_def)
  then show ?thesis by simp
qed

text \<open>
  Claim C6, amended. Every call of the fitter receives the x values and the arranged data,
  one entry per step each, and lower and upper bounds of equal length. An initial guess,
  as long as the bounds, is passed by the T2* cell and by no other cell.
\<close>

theorem curve_fit_call_arguments:
  assumes "arrange_data e shots result = Inr (ds, sigmas)"
  shows "xdata (curve_fit_call e (xvals_of e params plot_factor) ds) = xvals_of e params plot_factor
    \<and> ydata (curve_fit_call e (xvals_of e params plot_factor) ds) = ds
    \<and> length (xvals_of e params plot_factor) = steps e \<and> length ds = steps e
    \<and> (\<exists>lower upper.
          bounds (curve_fit_call e (xvals_of e params plot_factor) ds) = Some (lower, upper)
          \<and> length lower = length upper
          \<and> (\<forall>guess. p0 (curve_fit_call e (xvals_of e params plot_factor) ds) = Some guess
                \<longrightarrow> length guess = length lower))
    \<and> (p0 (curve_fit_call e (xvals_of e params plot_factor) ds) \<noteq> None) = (e = T2s)"
  using arrange_data_length [OF assms]
  by (cases e) (simp_all add: xvals_of_length)

theorem curve_fit_call_arguments_witness:
  "\<exists>ds sigmas. arrange_data T2s 1024 sample_result = Inr (ds, sigmas)
     \<and> length (xvals_of T2s (sample_params ''ns'') 1000) = 40 \<and> length ds = 40
     \<and> p0 (curve_fit_call T2s (xvals_of T2s (sample_params ''ns'') 1000) ds)
          = Some [0.5, 100, 1 / 10, pi, 0]
     \<and> bounds (curve_fit_call T2s (xvals_of T2s (sample_params ''ns'') 1000) ds)
          = Some ([0.3, 0, 0, 0, 0], [0.5, 200, 1 / 2, 2 * pi, 1])"
proof -
  obtain ds sigmas where run: "arrange_data T2s 1024 sample_result = Inr (ds, sigmas)"
    using sample_run_succeeds by blast
  from curve_fit_call_arguments [OF run, of "sample_params ''ns''" 1000] run
  show ?thesis by simp
qed

text \<open>
  The standard errors that a cell prints are the square roots of the diagonal of the
  covariance matrix that the fitter returned.
\<close>

lemma ferr_from_covariance:
  assumes "snd (arrange_cell e params shots result curve_fit punit_before) = Inr out"
  shows "ferr out = map np_sqrt (diag (fcov out))"
  using assms
  by (auto simp: arrange_cell_snd split: sum.splits prod.splits option.splits)

end
